theory Spec2Isabelle
  imports Main
begin

section \<open>The IntegreSQL client (client.go)\<close>

text \<open>
  A shallow embedding of the client of the IntegreSQL manager. What the Go code calls
  outside the repository (the HTTP transport, encoding/json, net/url, database/sql and the
  caller's populate callback) acts on a world \<open>'w\<close> that is threaded through every call,
  next to a trace of the calls made, in the order they were made.
\<close>

subsection \<open>Errors\<close>

text \<open>
  The five sentinel errors of lines 20 to 26, and the errors made elsewhere: \<open>Errorf\<close> is a
  fresh error of \<^verbatim>\<open>fmt.Errorf\<close> with its message; \<open>UrlError\<close> is what
  \<^verbatim>\<open>http.Client.Do\<close> returns (always a \<^verbatim>\<open>*url.Error\<close>); \<open>EncodeError\<close>
  and \<open>DecodeError\<close> come from encoding/json, \<open>RequestError\<close> from
  \<^verbatim>\<open>http.NewRequestWithContext\<close> and \<open>SqlError\<close> from database/sql. A caller's
  callback returns any value of the type, the sentinels included, as a Go callback may.
\<close>

datatype error =
    ErrManagerNotReady
  | ErrTemplateAlreadyInitialized
  | ErrTemplateNotFound
  | ErrDatabaseDiscarded
  | ErrTestNotFound
  | Errorf string
  | UrlError string
  | EncodeError string
  | DecodeError string
  | RequestError string
  | SqlError string

subsection \<open>The models package\<close>

text \<open>
  Modelled from the spec: the package \<^verbatim>\<open>pkg/models\<close> (the types
  \<^verbatim>\<open>TemplateDatabase\<close> and \<^verbatim>\<open>TestDatabase\<close>). A template has its hash and a
  connection descriptor (host, port, credentials, database name); a test database has a
  numeric identifier and a connection descriptor. \<^verbatim>\<open>ConnectionString\<close> is a pure
  function of the descriptor and is a parameter of the model (see \<open>lib\<close>).
\<close>

record DatabaseConfig =
  Host :: string
  Port :: int
  Username :: string
  Password :: string
  Database :: string

record TemplateDatabase =
  TemplateHash :: string
  Config :: DatabaseConfig

record TestDatabase =
  ID :: int
  TestConfig :: DatabaseConfig

text \<open>The zero values of \<^verbatim>\<open>var template models.TemplateDatabase\<close> and
  \<^verbatim>\<open>var test models.TestDatabase\<close>.\<close>

definition zero_DatabaseConfig :: DatabaseConfig where
  "zero_DatabaseConfig =
     \<lparr>Host = [], Port = 0, Username = [], Password = [], Database = []\<rparr>"

definition zero_TemplateDatabase :: TemplateDatabase where
  "zero_TemplateDatabase = \<lparr>TemplateHash = [], Config = zero_DatabaseConfig\<rparr>"

definition zero_TestDatabase :: TestDatabase where
  "zero_TestDatabase = \<lparr>ID = 0, TestConfig = zero_DatabaseConfig\<rparr>"

subsection \<open>Requests, responses, the client\<close>

record URL =
  Scheme :: string
  UHost :: string
  Path :: string

record request =
  Method :: string
  ReqURL :: string
  ReqBody :: "string option"
  Header :: "(string \<times> string) list"

text \<open>A completed exchange: the status code, the status line and the bytes of the body.\<close>

record response =
  StatusCode :: int
  Status :: string
  Body :: string

text \<open>
  The calls the code makes outside itself, in the order made: an exchange through the
  transport, the populate callback of \<^verbatim>\<open>SetupTemplate\<close> (with the connection
  string it was given), and for \<^verbatim>\<open>SetupTemplateWithDBClient\<close> the opening of the
  handle, the liveness probe, the callback and the closing of the handle.
\<close>

datatype 'db event =
    EvDo request
  | EvPopulate string
  | EvOpen string string
  | EvPing 'db
  | EvPopulateDB 'db
  | EvClose 'db

type_synonym ('w, 'db) state = "'w \<times> 'db event list"

text \<open>
  \<^verbatim>\<open>type Client struct\<close>: the base URL and the HTTP client, whose
  \<^verbatim>\<open>Do\<close> either fails (the message of the \<^verbatim>\<open>*url.Error\<close>) or completes an
  exchange. The configuration is read by \<^verbatim>\<open>NewClient\<close> only.
\<close>

record 'w Client =
  baseURL :: URL
  client :: "request \<Rightarrow> 'w \<Rightarrow> (string + response) \<times> 'w"

text \<open>
  The library functions the code calls, as parameters. A JSON decoder takes the bytes of
  the body and the destination, and returns the destination as the decoder leaves it and
  the error, if any (encoding/json may write part of a value before it fails).
  \<open>NewRequest_error\<close> is the error of \<^verbatim>\<open>http.NewRequestWithContext\<close> for a method
  and a URL string, if any.
\<close>

type_synonym 'v decoder = "string \<Rightarrow> 'v \<Rightarrow> 'v \<times> string option"

record ('w, 'db) lib =
  json_Encode :: "(string \<times> string) list \<Rightarrow> string + string"
  json_Decode_Template :: "TemplateDatabase decoder"
  json_Decode_Test :: "TestDatabase decoder"
  json_Decode_string :: "string decoder"
  ResolveReference :: "URL \<Rightarrow> URL \<Rightarrow> URL"
  URL_String :: "URL \<Rightarrow> string"
  NewRequest_error :: "string \<Rightarrow> string \<Rightarrow> string option"
  ConnectionString :: "DatabaseConfig \<Rightarrow> string"
  sql_Open :: "string \<Rightarrow> string \<Rightarrow> 'w \<Rightarrow> (string + 'db) \<times> 'w"
  PingContext :: "'db \<Rightarrow> 'w \<Rightarrow> string option \<times> 'w"
  db_Close :: "'db \<Rightarrow> 'w \<Rightarrow> string option \<times> 'w"

subsection \<open>Formatting and path joining\<close>

text \<open>\<^verbatim>\<open>%d\<close> of \<^verbatim>\<open>fmt\<close>: the decimal digits, with a minus sign below zero.\<close>

fun itoa_nat :: "nat \<Rightarrow> string" where
  "itoa_nat n =
     (if n < 10 then [''0123456789'' ! n]
      else itoa_nat (n div 10) @ [''0123456789'' ! (n mod 10)])"

declare itoa_nat.simps [simp del]

definition itoa :: "int \<Rightarrow> string" where
  "itoa i = (if i < 0 then CHR ''-'' # itoa_nat (nat (- i)) else itoa_nat (nat i))"

text \<open>
  \<^verbatim>\<open>path.Join\<close> and \<^verbatim>\<open>path.Clean\<close> of the Go standard library, by the rules of
  their documentation: \<^verbatim>\<open>Join\<close> drops the leading empty elements, joins the rest
  with slashes and cleans the result; \<^verbatim>\<open>Clean\<close> replaces multiple slashes by one,
  drops each \<^verbatim>\<open>.\<close> element, drops each inner \<^verbatim>\<open>..\<close> element with the element
  before it, drops the \<^verbatim>\<open>..\<close> elements that begin a rooted path, and returns
  \<^verbatim>\<open>.\<close> for an empty result.
\<close>

fun split_slash :: "string \<Rightarrow> string list" where
  "split_slash [] = [[]]"
| "split_slash (c # cs) =
     (if c = CHR ''/'' then [] # split_slash cs
      else (case split_slash cs of [] \<Rightarrow> [[c]] | s # ss \<Rightarrow> (c # s) # ss))"

fun join_slash :: "string list \<Rightarrow> string" where
  "join_slash [] = []"
| "join_slash [s] = s"
| "join_slash (s # t # ss) = s @ CHR ''/'' # join_slash (t # ss)"

definition clean_step :: "bool \<Rightarrow> string list \<Rightarrow> string \<Rightarrow> string list" where
  "clean_step rooted out seg =
     (if seg = [] \<or> seg = ''.'' then out
      else if seg = ''..'' then
        (if out \<noteq> [] \<and> last out \<noteq> ''..'' then butlast out
         else if rooted then out
         else out @ [''..''])
      else out @ [seg])"

definition path_Clean :: "string \<Rightarrow> string" where
  "path_Clean p =
     (if p = [] then ''.''
      else
        (let rooted = (hd p = CHR ''/'');
             out = foldl (clean_step rooted) [] (split_slash p);
             r = (if rooted then ''/'' else []) @ join_slash out
         in if r = [] then ''.'' else r))"

definition path_Join :: "string list \<Rightarrow> string" where
  "path_Join elem =
     (case dropWhile (\<lambda>e. e = []) elem of
        [] \<Rightarrow> []
      | es \<Rightarrow> path_Clean (join_slash es))"


subsection \<open>newRequest and do\<close>

text \<open>\<^verbatim>\<open>Header.Set\<close>: the value of the key is replaced, or the key is added.\<close>

fun header_Set :: "string \<Rightarrow> string \<Rightarrow> (string \<times> string) list \<Rightarrow> (string \<times> string) list" where
  "header_Set k v [] = [(k, v)]"
| "header_Set k v ((k', v') # h) =
     (if k' = k then (k, v) # h else (k', v') # header_Set k v h)"

text \<open>Line 258 and \<^verbatim>\<open>u.String()\<close>: the URL string of the request for an endpoint.\<close>

definition request_URL :: "('w, 'db) lib \<Rightarrow> 'w Client \<Rightarrow> string \<Rightarrow> string" where
  "request_URL L c endpoint =
     URL_String L
       (ResolveReference L (baseURL c)
          \<lparr>Scheme = [], UHost = [], Path = path_Join [Path (baseURL c), endpoint]\<rparr>)"

text \<open>
  \<^verbatim>\<open>newRequest\<close>: the body is absent (\<^verbatim>\<open>nil\<close>) or the payload, a map from strings
  to strings. The context carries cancellation only and is left out.
\<close>

definition newRequest ::
  "('w, 'db) lib \<Rightarrow> 'w Client \<Rightarrow> string \<Rightarrow> string \<Rightarrow> (string \<times> string) list option
     \<Rightarrow> error + request" where
  "newRequest L c method endpoint body =
     (let u = request_URL L c endpoint in
      case (case body of
              None \<Rightarrow> Inr None
            | Some payload \<Rightarrow>
                (case json_Encode L payload of
                   Inl m \<Rightarrow> Inl (EncodeError m)
                 | Inr bytes \<Rightarrow> Inr (Some bytes))) of
        Inl e \<Rightarrow> Inl e
      | Inr buf \<Rightarrow>
          (case NewRequest_error L method u of
             Some m \<Rightarrow> Inl (RequestError m)
           | None \<Rightarrow>
               (let req = \<lparr>Method = method, ReqURL = u, ReqBody = buf, Header = []\<rparr>;
                    req1 = (if body \<noteq> None
                            then req\<lparr>Header := header_Set ''Content-Type''
                                        ''application/json; charset=UTF-8'' (Header req)\<rparr>
                            else req)
                in Inr (req1\<lparr>Header := header_Set ''Accept'' ''application/json''
                                          (Header req1)\<rparr>))))"

text \<open>
  \<^verbatim>\<open>do\<close>: the destination \<open>v\<close> is absent (\<^verbatim>\<open>nil\<close>) or a value with the decoder
  of its type. The result is the response or the error, and the destination as the call
  leaves it. The body is read as a whole; its closing is not modelled.
\<close>

definition do ::
  "'w Client \<Rightarrow> request \<Rightarrow> ('v decoder \<times> 'v) option \<Rightarrow> ('w, 'db) state
     \<Rightarrow> ((error + response) \<times> 'v option) \<times> ('w, 'db) state" where
  "do c req v s =
     (case s of (w, tr) \<Rightarrow>
        (case client c req w of
           (Inl m, w') \<Rightarrow> ((Inl (UrlError m), map_option snd v), (w', tr @ [EvDo req]))
         | (Inr resp, w') \<Rightarrow>
             (let s' = (w', tr @ [EvDo req]) in
              if StatusCode resp = 202 \<or> StatusCode resp = 204
              then ((Inr resp, map_option snd v), s')
              else
                (case v of
                   None \<Rightarrow> ((Inr resp, None), s')
                 | Some (dec, x) \<Rightarrow>
                     (case dec (Body resp) x of
                        (x', Some m) \<Rightarrow> ((Inl (DecodeError m), Some x'), s')
                      | (x', None) \<Rightarrow> ((Inr resp, Some x'), s'))))))"

subsection \<open>The operations\<close>

text \<open>The error of the \<^verbatim>\<open>default\<close> branch of every status switch.\<close>

definition unexpected_status :: "response \<Rightarrow> error" where
  "unexpected_status resp =
     Errorf (''received unexpected HTTP status '' @ itoa (StatusCode resp)
               @ '' ('' @ Status resp @ '')'')"

definition nil_dest :: "(unit decoder \<times> unit) option" where
  "nil_dest = None"

text \<open>\<^verbatim>\<open>ResetAllTracking\<close>, lines 75 to 92.\<close>

definition ResetAllTracking ::
  "('w, 'db) lib \<Rightarrow> 'w Client \<Rightarrow> ('w, 'db) state \<Rightarrow> error option \<times> ('w, 'db) state" where
  "ResetAllTracking L c s =
     (case newRequest L c ''DELETE'' ''/admin/templates'' None of
        Inl e \<Rightarrow> (Some e, s)
      | Inr req \<Rightarrow>
          (case do c req (Some (json_Decode_string L, [])) s of
             ((Inl e, v), s') \<Rightarrow> (Some e, s')
           | ((Inr resp, v), s') \<Rightarrow>
               (let msg = (case v of Some m \<Rightarrow> m | None \<Rightarrow> []) in
                if StatusCode resp \<noteq> 204
                then (Some (Errorf (''failed to reset all tracking: '' @ msg)), s')
                else (None, s'))))"

text \<open>\<^verbatim>\<open>InitializeTemplate\<close>, lines 94 to 119: the template is returned with the
  error, as the Go function returns both.\<close>

definition InitializeTemplate ::
  "('w, 'db) lib \<Rightarrow> 'w Client \<Rightarrow> string \<Rightarrow> ('w, 'db) state
     \<Rightarrow> (TemplateDatabase \<times> error option) \<times> ('w, 'db) state" where
  "InitializeTemplate L c hash s =
     (let template = zero_TemplateDatabase;
          payload = [(''hash'', hash)]
      in case newRequest L c ''POST'' ''/templates'' (Some payload) of
           Inl e \<Rightarrow> ((template, Some e), s)
         | Inr req \<Rightarrow>
             (case do c req (Some (json_Decode_Template L, template)) s of
                ((r, v), s') \<Rightarrow>
                  (let template' = (case v of Some t \<Rightarrow> t | None \<Rightarrow> template) in
                   case r of
                     Inl e \<Rightarrow> ((template', Some e), s')
                   | Inr resp \<Rightarrow>
                       (if StatusCode resp = 200 then ((template', None), s')
                        else if StatusCode resp = 423
                          then ((template', Some ErrTemplateAlreadyInitialized), s')
                        else if StatusCode resp = 503
                          then ((template', Some ErrManagerNotReady), s')
                        else ((template', Some (unexpected_status resp)), s')))))"

text \<open>The status switch shared, line for line, by \<^verbatim>\<open>DiscardTemplate\<close> (lines 172
  to 181), \<^verbatim>\<open>FinalizeTemplate\<close> (195 to 204) and \<^verbatim>\<open>ReturnTestDatabase\<close> (245 to
  254).\<close>

definition DiscardTemplate ::
  "('w, 'db) lib \<Rightarrow> 'w Client \<Rightarrow> string \<Rightarrow> ('w, 'db) state
     \<Rightarrow> error option \<times> ('w, 'db) state" where
  "DiscardTemplate L c hash s =
     (case newRequest L c ''DELETE'' (''/templates/'' @ hash) None of
        Inl e \<Rightarrow> (Some e, s)
      | Inr req \<Rightarrow>
          (case do c req nil_dest s of
             ((Inl e, v), s') \<Rightarrow> (Some e, s')
           | ((Inr resp, v), s') \<Rightarrow>
               (if StatusCode resp = 204 then (None, s')
                else if StatusCode resp = 404 then (Some ErrTemplateNotFound, s')
                else if StatusCode resp = 503 then (Some ErrManagerNotReady, s')
                else (Some (unexpected_status resp), s'))))"

definition FinalizeTemplate ::
  "('w, 'db) lib \<Rightarrow> 'w Client \<Rightarrow> string \<Rightarrow> ('w, 'db) state
     \<Rightarrow> error option \<times> ('w, 'db) state" where
  "FinalizeTemplate L c hash s =
     (case newRequest L c ''PUT'' (''/templates/'' @ hash) None of
        Inl e \<Rightarrow> (Some e, s)
      | Inr req \<Rightarrow>
          (case do c req nil_dest s of
             ((Inl e, v), s') \<Rightarrow> (Some e, s')
           | ((Inr resp, v), s') \<Rightarrow>
               (if StatusCode resp = 204 then (None, s')
                else if StatusCode resp = 404 then (Some ErrTemplateNotFound, s')
                else if StatusCode resp = 503 then (Some ErrManagerNotReady, s')
                else (Some (unexpected_status resp), s'))))"

text \<open>\<^verbatim>\<open>GetTestDatabase\<close>, lines 207 to 232.\<close>

definition GetTestDatabase ::
  "('w, 'db) lib \<Rightarrow> 'w Client \<Rightarrow> string \<Rightarrow> ('w, 'db) state
     \<Rightarrow> (TestDatabase \<times> error option) \<times> ('w, 'db) state" where
  "GetTestDatabase L c hash s =
     (let test = zero_TestDatabase
      in case newRequest L c ''GET'' (''/templates/'' @ hash @ ''/tests'') None of
           Inl e \<Rightarrow> ((test, Some e), s)
         | Inr req \<Rightarrow>
             (case do c req (Some (json_Decode_Test L, test)) s of
                ((r, v), s') \<Rightarrow>
                  (let test' = (case v of Some t \<Rightarrow> t | None \<Rightarrow> test) in
                   case r of
                     Inl e \<Rightarrow> ((test', Some e), s')
                   | Inr resp \<Rightarrow>
                       (if StatusCode resp = 200 then ((test', None), s')
                        else if StatusCode resp = 404
                          then ((test', Some ErrTemplateNotFound), s')
                        else if StatusCode resp = 410
                          then ((test', Some ErrDatabaseDiscarded), s')
                        else if StatusCode resp = 503
                          then ((test', Some ErrManagerNotReady), s')
                        else ((test', Some (unexpected_status resp)), s')))))"


text \<open>
  \<^verbatim>\<open>SetupTemplate\<close>, lines 121 to 134. The callback gets the connection string and
  acts on the world; its call is recorded in the trace.
\<close>

definition SetupTemplate ::
  "('w, 'db) lib \<Rightarrow> 'w Client \<Rightarrow> string \<Rightarrow> (string \<Rightarrow> 'w \<Rightarrow> error option \<times> 'w)
     \<Rightarrow> ('w, 'db) state \<Rightarrow> error option \<times> ('w, 'db) state" where
  "SetupTemplate L c hash init s =
     (case InitializeTemplate L c hash s of
        ((template, None), (w1, tr1)) \<Rightarrow>
          (let conn = ConnectionString L (Config template) in
           case init conn w1 of
             (Some e, w2) \<Rightarrow> (Some e, (w2, tr1 @ [EvPopulate conn]))
           | (None, w2) \<Rightarrow> FinalizeTemplate L c hash (w2, tr1 @ [EvPopulate conn]))
      | ((template, Some e), s1) \<Rightarrow>
          (if e = ErrTemplateAlreadyInitialized then (None, s1) else (Some e, s1)))"




subsection \<open>Reading a trace\<close>

text \<open>\<open>is_Do\<close> holds of the exchanges; \<open>sent\<close> lists the method and the URL of every
  request of a trace, in order.\<close>

fun is_Do :: "'db event \<Rightarrow> bool" where
  "is_Do (EvDo req) = True"
| "is_Do e = False"


subsection \<open>Test doubles\<close>

text \<open>
  Doubles for the concrete runs below. The transport answers from a queue of canned
  responses and fails when the queue is empty. The encoder writes a map whose keys and
  values need no escaping, as encoding/json does, with the newline of
  \<^verbatim>\<open>Encoder.Encode\<close>. The decoders agree with encoding/json on the bodies the runs
  use: the empty body is \<^verbatim>\<open>io.EOF\<close>, the object \<^verbatim>\<open>{}\<close> writes nothing into a
  struct, and a JSON string without escapes decodes into a string; they reject everything
  else. The handle of the database is a number.
\<close>

definition fake_Do :: "request \<Rightarrow> response list \<Rightarrow> (string + response) \<times> response list" where
  "fake_Do req w =
     (case w of [] \<Rightarrow> (Inl ''connection refused'', []) | r # rs \<Rightarrow> (Inr r, rs))"

definition fake_quote :: "string \<Rightarrow> string" where
  "fake_quote s = CHR 0x22 # s @ [CHR 0x22]"

fun fake_members :: "(string \<times> string) list \<Rightarrow> string" where
  "fake_members [] = []"
| "fake_members [(k, v)] = fake_quote k @ '':'' @ fake_quote v"
| "fake_members ((k, v) # kv # kvs) =
     fake_quote k @ '':'' @ fake_quote v @ '','' @ fake_members (kv # kvs)"

definition fake_Encode :: "(string \<times> string) list \<Rightarrow> string + string" where
  "fake_Encode payload = Inr (''{'' @ fake_members payload @ ''}'' @ [CHR 0x0A])"

definition fake_Decode_struct :: "'v decoder" where
  "fake_Decode_struct body v =
     (if body = [] then (v, Some ''EOF'')
      else if body = ''{}'' then (v, None)
      else (v, Some ''json: cannot unmarshal''))"

definition fake_Decode_string :: "string decoder" where
  "fake_Decode_string body v =
     (if body = [] then (v, Some ''EOF'')
      else if 2 \<le> length body \<and> hd body = CHR 0x22 \<and> last body = CHR 0x22
              \<and> CHR 0x22 \<notin> set (butlast (tl body)) \<and> CHR 0x5C \<notin> set (butlast (tl body))
        then (butlast (tl body), None)
      else (v, Some ''json: cannot unmarshal''))"

definition fake_ConnectionString :: "DatabaseConfig \<Rightarrow> string" where
  "fake_ConnectionString cfg =
     ''host='' @ Host cfg @ '' port='' @ itoa (Port cfg) @ '' user='' @ Username cfg
       @ '' password='' @ Password cfg @ '' dbname='' @ Database cfg"

definition fake_String :: "URL \<Rightarrow> string" where
  "fake_String u = Scheme u @ ''://'' @ UHost u @ Path u"

definition fake_Resolve :: "URL \<Rightarrow> URL \<Rightarrow> URL" where
  "fake_Resolve u ref = u\<lparr>Path := Path ref\<rparr>"

text \<open>The handle opens as number 7; the probe fails when \<open>ping_ok\<close> is false.\<close>

definition fake_lib :: "bool \<Rightarrow> (response list, nat) lib" where
  "fake_lib ping_ok =
     \<lparr>json_Encode = fake_Encode,
      json_Decode_Template = fake_Decode_struct,
      json_Decode_Test = fake_Decode_struct,
      json_Decode_string = fake_Decode_string,
      ResolveReference = fake_Resolve,
      URL_String = fake_String,
      NewRequest_error = (\<lambda>method u. None),
      ConnectionString = fake_ConnectionString,
      sql_Open = (\<lambda>driver conn w. (Inr 7, w)),
      PingContext = (\<lambda>db w. (if ping_ok then None else Some ''connection refused'', w)),
      db_Close = (\<lambda>db w. (None, w))\<rparr>"

definition fake_client :: "response list Client" where
  "fake_client =
     \<lparr>baseURL = \<lparr>Scheme = ''http'', UHost = ''manager:5000'', Path = ''/api/v1''\<rparr>,
      client = fake_Do\<rparr>"

definition canned :: "int \<Rightarrow> string \<Rightarrow> response" where
  "canned code body = \<lparr>StatusCode = code, Status = itoa code, Body = body\<rparr>"

text \<open>The requests the operations build for the client of the runs and the hash
  \<^verbatim>\<open>abc\<close>, and the connection string of the zero template.\<close>

definition fake_POST :: request where
  "fake_POST =
     \<lparr>Method = ''POST'', ReqURL = ''http://manager:5000/api/v1/templates'',
      ReqBody = Some (''{'' @ fake_quote ''hash'' @ '':'' @ fake_quote ''abc'' @ ''}''
                        @ [CHR 0x0A]),
      Header = [(''Content-Type'', ''application/json; charset=UTF-8''),
                (''Accept'', ''application/json'')]\<rparr>"

definition fake_req :: "string \<Rightarrow> string \<Rightarrow> request" where
  "fake_req m p =
     \<lparr>Method = m, ReqURL = ''http://manager:5000'' @ p, ReqBody = None,
      Header = [(''Accept'', ''application/json'')]\<rparr>"

definition fake_conn :: string where
  "fake_conn = ''host= port=0 user= password= dbname=''"

section \<open>Lemmas about the operations\<close>

subsection \<open>The errors of newRequest and do, and the trace of do\<close>



lemma do_trace:
  "snd (do c req v (w, tr)) = (snd (client c req w), tr @ [EvDo req])"
  by (auto simp: do_def Let_def split: prod.splits sum.splits option.splits)

lemma do_nil:
  "do c req nil_dest (w, tr) =
     (case client c req w of
        (Inl m, w') \<Rightarrow> ((Inl (UrlError m), None), (w', tr @ [EvDo req]))
      | (Inr r, w') \<Rightarrow> ((Inr r, None), (w', tr @ [EvDo req])))"
  by (auto simp: do_def nil_dest_def Let_def split: prod.splits sum.splits)

subsection \<open>The operations on a completed exchange\<close>

text \<open>What each operation returns once its request is built and the transport has answered.\<close>

lemma InitializeTemplate_completed:
  assumes "newRequest L c ''POST'' ''/templates'' (Some [(''hash'', hash)]) = Inr req"
      and "client c req w = (Inr r, w')"
  shows "InitializeTemplate L c hash (w, tr) =
     (if StatusCode r = 202 \<or> StatusCode r = 204
      then ((zero_TemplateDatabase, Some (unexpected_status r)), (w', tr @ [EvDo req]))
      else
        (case json_Decode_Template L (Body r) zero_TemplateDatabase of
           (t, Some m) \<Rightarrow> ((t, Some (DecodeError m)), (w', tr @ [EvDo req]))
         | (t, None) \<Rightarrow>
             ((t, if StatusCode r = 200 then None
                  else if StatusCode r = 423 then Some ErrTemplateAlreadyInitialized
                  else if StatusCode r = 503 then Some ErrManagerNotReady
                  else Some (unexpected_status r)), (w', tr @ [EvDo req]))))"
  using assms
  by (auto simp: InitializeTemplate_def do_def Let_def split: prod.splits option.splits)

lemma GetTestDatabase_completed:
  assumes "newRequest L c ''GET'' (''/templates/'' @ hash @ ''/tests'') None = Inr req"
      and "client c req w = (Inr r, w')"
  shows "GetTestDatabase L c hash (w, tr) =
     (if StatusCode r = 202 \<or> StatusCode r = 204
      then ((zero_TestDatabase, Some (unexpected_status r)), (w', tr @ [EvDo req]))
      else
        (case json_Decode_Test L (Body r) zero_TestDatabase of
           (t, Some m) \<Rightarrow> ((t, Some (DecodeError m)), (w', tr @ [EvDo req]))
         | (t, None) \<Rightarrow>
             ((t, if StatusCode r = 200 then None
                  else if StatusCode r = 404 then Some ErrTemplateNotFound
                  else if StatusCode r = 410 then Some ErrDatabaseDiscarded
                  else if StatusCode r = 503 then Some ErrManagerNotReady
                  else Some (unexpected_status r)), (w', tr @ [EvDo req]))))"
  using assms
  by (auto simp: GetTestDatabase_def do_def Let_def split: prod.splits option.splits)

lemma ResetAllTracking_completed:
  assumes "newRequest L c ''DELETE'' ''/admin/templates'' None = Inr req"
      and "client c req w = (Inr r, w')"
  shows "ResetAllTracking L c (w, tr) =
     (if StatusCode r = 204 then (None, (w', tr @ [EvDo req]))
      else if StatusCode r = 202
        then (Some (Errorf ''failed to reset all tracking: ''), (w', tr @ [EvDo req]))
      else
        (case json_Decode_string L (Body r) [] of
           (msg, Some m) \<Rightarrow> (Some (DecodeError m), (w', tr @ [EvDo req]))
         | (msg, None) \<Rightarrow>
             (Some (Errorf (''failed to reset all tracking: '' @ msg)), (w', tr @ [EvDo req]))))"
  using assms
  by (auto simp: ResetAllTracking_def do_def Let_def split: prod.splits option.splits)

lemma no_content_op_completed:
  assumes "newRequest L c m ep None = Inr req"
      and "client c req w = (Inr r, w')"
  shows "(case do c req nil_dest (w, tr) of
             ((Inl e, v), s') \<Rightarrow> (Some e, s')
           | ((Inr r', v), s') \<Rightarrow>
               (if StatusCode r' = 204 then (None, s')
                else if StatusCode r' = 404 then (Some ErrTemplateNotFound, s')
                else if StatusCode r' = 503 then (Some ErrManagerNotReady, s')
                else (Some (unexpected_status r'), s'))) =
         (if StatusCode r = 204 then None
          else if StatusCode r = 404 then Some ErrTemplateNotFound
          else if StatusCode r = 503 then Some ErrManagerNotReady
          else Some (unexpected_status r), (w', tr @ [EvDo req]))"
  using assms by (simp add: do_nil)


subsection \<open>What the operations add to the trace\<close>


lemma InitializeTemplate_state:
  "snd (InitializeTemplate L c hash s) =
     (case newRequest L c ''POST'' ''/templates'' (Some [(''hash'', hash)]) of
        Inl e \<Rightarrow> s
      | Inr req \<Rightarrow> snd (do c req (Some (json_Decode_Template L, zero_TemplateDatabase)) s))"
  by (simp add: InitializeTemplate_def Let_def split: sum.splits prod.splits)

lemma FinalizeTemplate_state:
  "snd (FinalizeTemplate L c hash s) =
     (case newRequest L c ''PUT'' (''/templates/'' @ hash) None of
        Inl e \<Rightarrow> s
      | Inr req \<Rightarrow> snd (do c req nil_dest s))"
  by (simp add: FinalizeTemplate_def split: sum.splits prod.splits)

lemma InitializeTemplate_trace:
  "\<exists>evs. snd (snd (InitializeTemplate L c hash (w, tr))) = tr @ evs \<and> list_all is_Do evs"
  by (cases "newRequest L c ''POST'' ''/templates'' (Some [(''hash'', hash)])")
     (simp_all add: InitializeTemplate_state do_trace)

lemma FinalizeTemplate_trace:
  "\<exists>evs. snd (snd (FinalizeTemplate L c hash (w, tr))) = tr @ evs \<and> list_all is_Do evs"
  by (cases "newRequest L c ''PUT'' (''/templates/'' @ hash) None")
     (simp_all add: FinalizeTemplate_state do_trace)

subsection \<open>No operation makes ErrTestNotFound\<close>








subsection \<open>The part of SetupTemplateWithDBClient that holds the handle\<close>


subsection \<open>Where ErrTestNotFound can come from in the setup operations\<close>




subsection \<open>Joining a base path and an endpoint\<close>









subsection \<open>The requests an operation sends\<close>










subsection \<open>Runs against the doubles\<close>

text \<open>The operations evaluated on canned responses.\<close>

lemmas run_defs = fake_lib_def fake_client_def fake_Do_def canned_def fake_Decode_struct_def
  fake_Decode_string_def fake_ConnectionString_def fake_String_def fake_Resolve_def
  request_URL_def path_Join_def path_Clean_def clean_step_def newRequest_def do_def nil_dest_def
  unexpected_status_def itoa_def itoa_nat.simps Let_def
  zero_TemplateDatabase_def zero_DatabaseConfig_def zero_TestDatabase_def
  fake_POST_def fake_req_def fake_conn_def fake_Encode_def fake_quote_def

lemma fake_newRequest_nil:
  "newRequest (fake_lib b) fake_client m ''/templates/abc'' None = Inr (fake_req m ''/api/v1/templates/abc'')"
  "newRequest (fake_lib b) fake_client m ''/templates/abc/tests'' None = Inr (fake_req m ''/api/v1/templates/abc/tests'')"
  "newRequest (fake_lib b) fake_client m ''/templates/abc/tests/3'' None = Inr (fake_req m ''/api/v1/templates/abc/tests/3'')"
  "newRequest (fake_lib b) fake_client m ''/admin/templates'' None = Inr (fake_req m ''/api/v1/admin/templates'')"
  "newRequest (fake_lib b) fake_client ''POST'' ''/templates'' (Some [(''hash'', ''abc'')]) = Inr fake_POST"
  by (simp_all add: run_defs)

lemma fake_Initialize:
  "InitializeTemplate (fake_lib b) fake_client ''abc'' (canned 200 ''{}'' # rs, tr) =
     ((zero_TemplateDatabase, None), (rs, tr @ [EvDo fake_POST]))"
  "InitializeTemplate (fake_lib b) fake_client ''abc'' (canned 423 ''{}'' # rs, tr) =
     ((zero_TemplateDatabase, Some ErrTemplateAlreadyInitialized), (rs, tr @ [EvDo fake_POST]))"
  "InitializeTemplate (fake_lib b) fake_client ''abc'' (canned 423 [] # rs, tr) =
     ((zero_TemplateDatabase, Some (DecodeError ''EOF'')), (rs, tr @ [EvDo fake_POST]))"
  "InitializeTemplate (fake_lib b) fake_client ''abc'' (canned 423 ''Locked'' # rs, tr) =
     ((zero_TemplateDatabase, Some (DecodeError ''json: cannot unmarshal'')), (rs, tr @ [EvDo fake_POST]))"
  "InitializeTemplate (fake_lib b) fake_client ''abc'' (canned 503 ''{}'' # rs, tr) =
     ((zero_TemplateDatabase, Some ErrManagerNotReady), (rs, tr @ [EvDo fake_POST]))"
  by (simp_all add: InitializeTemplate_def run_defs)

lemma fake_Finalize:
  "FinalizeTemplate (fake_lib b) fake_client ''abc'' (canned 204 [] # rs, tr) =
     (None, (rs, tr @ [EvDo (fake_req ''PUT'' ''/api/v1/templates/abc'')]))"
  "FinalizeTemplate (fake_lib b) fake_client ''abc'' (canned 404 [] # rs, tr) =
     (Some ErrTemplateNotFound, (rs, tr @ [EvDo (fake_req ''PUT'' ''/api/v1/templates/abc'')]))"
  "FinalizeTemplate (fake_lib b) fake_client ''abc'' (canned 500 [] # rs, tr) =
     (Some (Errorf ''received unexpected HTTP status 500 (500)''),
      (rs, tr @ [EvDo (fake_req ''PUT'' ''/api/v1/templates/abc'')]))"
  by (simp_all add: FinalizeTemplate_def run_defs)

lemma fake_lib_sel:
  "ConnectionString (fake_lib b) = fake_ConnectionString"
  "sql_Open (fake_lib b) = (\<lambda>driver conn w. (Inr 7, w))"
  "PingContext (fake_lib b) = (\<lambda>db w. (if b then None else Some ''connection refused'', w))"
  "db_Close (fake_lib b) = (\<lambda>db w. (None, w))"
  "json_Decode_Template (fake_lib b) = fake_Decode_struct"
  "json_Decode_Test (fake_lib b) = fake_Decode_struct"
  "json_Decode_string (fake_lib b) = fake_Decode_string"
  by (simp_all add: fake_lib_def)

lemma fake_conn_zero: "fake_ConnectionString (Config zero_TemplateDatabase) = fake_conn"
  by (simp add: fake_ConnectionString_def fake_conn_def zero_TemplateDatabase_def
        zero_DatabaseConfig_def itoa_def itoa_nat.simps)

lemma fake_Setup:
  "SetupTemplate (fake_lib b) fake_client ''abc'' (\<lambda>conn w. (None, w))
       ([canned 200 ''{}'', canned 204 []], []) =
     (None, ([], [EvDo fake_POST, EvPopulate fake_conn,
                  EvDo (fake_req ''PUT'' ''/api/v1/templates/abc'')]))"
  "SetupTemplate (fake_lib b) fake_client ''abc'' (\<lambda>conn w. (Some (Errorf ''migration failed''), w))
       ([canned 200 ''{}'', canned 204 []], []) =
     (Some (Errorf ''migration failed''), ([canned 204 []], [EvDo fake_POST, EvPopulate fake_conn]))"
  "SetupTemplate (fake_lib b) fake_client ''abc'' (\<lambda>conn w. (Some (Errorf ''migration failed''), w))
       ([canned 423 ''{}'', canned 204 []], []) =
     (None, ([canned 204 []], [EvDo fake_POST]))"
  "SetupTemplate (fake_lib b) fake_client ''abc'' (\<lambda>conn w. (Some ErrTestNotFound, w))
       ([canned 200 ''{}''], []) =
     (Some ErrTestNotFound, ([], [EvDo fake_POST, EvPopulate fake_conn]))"
  by (simp_all add: SetupTemplate_def fake_Initialize fake_Finalize fake_lib_sel fake_conn_zero)

lemma fake_client_Do:
  "client fake_client req (r # rs) = (Inr r, rs)"
  "client fake_client req [] = (Inl ''connection refused'', [])"
  by (simp_all add: fake_client_def fake_Do_def)

lemma canned_sel:
  "StatusCode (canned code body) = code"
  "Status (canned code body) = itoa code"
  "Body (canned code body) = body"
  by (simp_all add: canned_def)

lemma itoa_500: "itoa 500 = ''500''" "itoa 418 = ''418''"
  by (simp_all add: itoa_def itoa_nat.simps)

lemma fake_GetTest:
  "GetTestDatabase (fake_lib b) fake_client ''abc'' (canned 200 ''{}'' # rs, tr) =
     ((zero_TestDatabase, None),
      (rs, tr @ [EvDo (fake_req ''GET'' ''/api/v1/templates/abc/tests'')]))"
  "GetTestDatabase (fake_lib b) fake_client ''abc'' (canned 410 ''{}'' # rs, tr) =
     ((zero_TestDatabase, Some ErrDatabaseDiscarded),
      (rs, tr @ [EvDo (fake_req ''GET'' ''/api/v1/templates/abc/tests'')]))"
  "GetTestDatabase (fake_lib b) fake_client ''abc'' (canned 404 [] # rs, tr) =
     ((zero_TestDatabase, Some (DecodeError ''EOF'')),
      (rs, tr @ [EvDo (fake_req ''GET'' ''/api/v1/templates/abc/tests'')]))"
  by (simp_all add: GetTestDatabase_def run_defs)

lemma fake_Reset:
  "ResetAllTracking (fake_lib b) fake_client (canned 202 ''busy'' # rs, tr) =
     (Some (Errorf ''failed to reset all tracking: ''),
      (rs, tr @ [EvDo (fake_req ''DELETE'' ''/api/v1/admin/templates'')]))"
  "ResetAllTracking (fake_lib b) fake_client (canned 500 ''{}'' # rs, tr) =
     (Some (DecodeError ''json: cannot unmarshal''),
      (rs, tr @ [EvDo (fake_req ''DELETE'' ''/api/v1/admin/templates'')]))"
  by (simp_all add: ResetAllTracking_def run_defs)

lemma fake_decode_runs:
  "fake_Decode_struct ''{}'' v = (v, None)"
  "fake_Decode_struct [] v = (v, Some ''EOF'')"
  "fake_Decode_struct ''Locked'' v = (v, Some ''json: cannot unmarshal'')"
  "fake_Decode_string [] s = (s, Some ''EOF'')"
  "fake_Decode_string ''{}'' s = (s, Some ''json: cannot unmarshal'')"
  "fake_Decode_string [CHR 0x22, CHR ''b'', CHR ''o'', CHR ''o'', CHR ''m'', CHR 0x22] s
     = (''boom'', None)"
  by (simp_all add: fake_Decode_struct_def fake_Decode_string_def)



section \<open>The claims\<close>

text \<open>
  Claim C1. \<^verbatim>\<open>SetupTemplate\<close> first calls \<^verbatim>\<open>InitializeTemplate\<close>: up to there the trace
  holds exchanges only. If that returns an error, populate is not invoked and nothing more
  is sent (the world and the trace are those \<^verbatim>\<open>InitializeTemplate\<close> left): the result
  is success for \<^verbatim>\<open>ErrTemplateAlreadyInitialized\<close> and the same error otherwise. If
  it succeeds, populate is invoked once, with the connection string of the returned
  template; an error of populate is returned unchanged and the trace ends with the call of
  populate (\<^verbatim>\<open>FinalizeTemplate\<close> is not called); with no error the result is that of
  \<^verbatim>\<open>FinalizeTemplate\<close>, run after the call of populate.
\<close>

theorem SetupTemplate_protocol:
  assumes "InitializeTemplate L c hash (w, tr) = ((t, e1), (w1, tr1))"
      and "SetupTemplate L c hash init (w, tr) = (r, (w', tr'))"
  shows "(\<exists>evs. tr1 = tr @ evs \<and> list_all is_Do evs)
       \<and> (case e1 of
             Some e \<Rightarrow>
               r = (if e = ErrTemplateAlreadyInitialized then None else Some e)
                 \<and> w' = w1 \<and> tr' = tr1
           | None \<Rightarrow>
               (case init (ConnectionString L (Config t)) w1 of
                  (Some e, w2) \<Rightarrow>
                    r = Some e \<and> w' = w2
                      \<and> tr' = tr1 @ [EvPopulate (ConnectionString L (Config t))]
                | (None, w2) \<Rightarrow>
                    FinalizeTemplate L c hash
                         (w2, tr1 @ [EvPopulate (ConnectionString L (Config t))])
                       = (r, (w', tr'))
                      \<and> (\<exists>fin. tr' = tr1 @ [EvPopulate (ConnectionString L (Config t))] @ fin
                                  \<and> list_all is_Do fin)))"
proof -
  let ?conn = "ConnectionString L (Config t)"
  have init_first: "\<exists>evs. tr1 = tr @ evs \<and> list_all is_Do evs"
    using InitializeTemplate_trace [of L c hash w tr] assms(1) by simp
  have rest: "(case e1 of
             Some e \<Rightarrow>
               r = (if e = ErrTemplateAlreadyInitialized then None else Some e)
                 \<and> w' = w1 \<and> tr' = tr1
           | None \<Rightarrow>
               (case init ?conn w1 of
                  (Some e, w2) \<Rightarrow>
                    r = Some e \<and> w' = w2 \<and> tr' = tr1 @ [EvPopulate ?conn]
                | (None, w2) \<Rightarrow>
                    FinalizeTemplate L c hash (w2, tr1 @ [EvPopulate ?conn]) = (r, (w', tr'))
                      \<and> (\<exists>fin. tr' = tr1 @ [EvPopulate ?conn] @ fin \<and> list_all is_Do fin)))"
  proof (cases e1)
    case (Some e)
    have "SetupTemplate L c hash init (w, tr) =
        (if e = ErrTemplateAlreadyInitialized then None else Some e, (w1, tr1))"
      by (simp add: SetupTemplate_def assms(1) Some)
    with assms(2) Some show ?thesis by auto
  next
    case None
    show ?thesis
    proof (cases "init ?conn w1")
      case (Pair pe w2)
      show ?thesis
      proof (cases pe)
        case (Some e)
        have "SetupTemplate L c hash init (w, tr) = (Some e, (w2, tr1 @ [EvPopulate ?conn]))"
          by (simp add: SetupTemplate_def assms(1) None Pair Some)
        with assms(2) None Pair Some show ?thesis by auto
      next
        case pnone: None
        have "SetupTemplate L c hash init (w, tr) =
            FinalizeTemplate L c hash (w2, tr1 @ [EvPopulate ?conn])"
          by (simp add: SetupTemplate_def assms(1) None Pair pnone)
        then have fin: "FinalizeTemplate L c hash (w2, tr1 @ [EvPopulate ?conn]) = (r, (w', tr'))"
          using assms(2) by simp
        have "\<exists>evs. tr' = (tr1 @ [EvPopulate ?conn]) @ evs \<and> list_all is_Do evs"
          using FinalizeTemplate_trace [of L c hash w2 "tr1 @ [EvPopulate ?conn]"]
          by (simp add: fin)
        then have "\<exists>fin. tr' = tr1 @ [EvPopulate ?conn] @ fin \<and> list_all is_Do fin"
          by simp
        with fin None Pair pnone show ?thesis by auto
      qed
    qed
  qed
  from init_first rest show ?thesis by (rule conjI)
qed

text \<open>
  Three runs of the theorem against the doubles: the manager answers 200 and then 204 and populate
  succeeds; the manager answers 423 and populate, which would fail, is never called; the
  manager answers 200 and populate fails, and the second answer is never asked for.
\<close>

theorem SetupTemplate_protocol_witness:
  "InitializeTemplate (fake_lib True) fake_client ''abc'' ([canned 200 ''{}'', canned 204 []], [])
     = ((zero_TemplateDatabase, None), ([canned 204 []], [EvDo fake_POST]))
   \<and> SetupTemplate (fake_lib True) fake_client ''abc'' (\<lambda>conn w. (None, w))
         ([canned 200 ''{}'', canned 204 []], [])
       = (None, ([], [EvDo fake_POST, EvPopulate fake_conn,
                      EvDo (fake_req ''PUT'' ''/api/v1/templates/abc'')]))
   \<and> FinalizeTemplate (fake_lib True) fake_client ''abc''
         ([canned 204 []], [EvDo fake_POST, EvPopulate fake_conn])
       = (None, ([], [EvDo fake_POST, EvPopulate fake_conn,
                      EvDo (fake_req ''PUT'' ''/api/v1/templates/abc'')]))
   \<and> InitializeTemplate (fake_lib True) fake_client ''abc'' ([canned 423 ''{}'', canned 204 []], [])
       = ((zero_TemplateDatabase, Some ErrTemplateAlreadyInitialized),
          ([canned 204 []], [EvDo fake_POST]))
   \<and> SetupTemplate (fake_lib True) fake_client ''abc''
         (\<lambda>conn w. (Some (Errorf ''migration failed''), w))
         ([canned 423 ''{}'', canned 204 []], [])
       = (None, ([canned 204 []], [EvDo fake_POST]))
   \<and> SetupTemplate (fake_lib True) fake_client ''abc''
         (\<lambda>conn w. (Some (Errorf ''migration failed''), w))
         ([canned 200 ''{}'', canned 204 []], [])
       = (Some (Errorf ''migration failed''),
          ([canned 204 []], [EvDo fake_POST, EvPopulate fake_conn]))"
proof -
  let ?L = "fake_lib True :: (response list, nat) lib"
  have i1: "InitializeTemplate ?L fake_client ''abc'' ([canned 200 ''{}'', canned 204 []], [])
     = ((zero_TemplateDatabase, None), ([canned 204 []], [EvDo fake_POST]))"
    by (simp add: fake_Initialize)
  have s1: "SetupTemplate ?L fake_client ''abc'' (\<lambda>conn w. (None, w))
         ([canned 200 ''{}'', canned 204 []], [])
       = (None, ([], [EvDo fake_POST, EvPopulate fake_conn,
                      EvDo (fake_req ''PUT'' ''/api/v1/templates/abc'')]))"
    by (rule fake_Setup)
  have i2: "InitializeTemplate ?L fake_client ''abc'' ([canned 423 ''{}'', canned 204 []], [])
       = ((zero_TemplateDatabase, Some ErrTemplateAlreadyInitialized),
          ([canned 204 []], [EvDo fake_POST]))"
    by (simp add: fake_Initialize)
  obtain r w' tr' where s2: "SetupTemplate ?L fake_client ''abc''
         (\<lambda>conn w. (Some (Errorf ''migration failed''), w))
         ([canned 423 ''{}'', canned 204 []], []) = (r, (w', tr'))"
    by (metis prod.exhaust)
  from SetupTemplate_protocol [OF i1 s1] have a:
    "FinalizeTemplate ?L fake_client ''abc''
         ([canned 204 []], [EvDo fake_POST, EvPopulate fake_conn])
       = (None, ([], [EvDo fake_POST, EvPopulate fake_conn,
                      EvDo (fake_req ''PUT'' ''/api/v1/templates/abc'')]))"
    by (simp add: fake_lib_sel fake_conn_zero)
  obtain r3 w3 tr3 where s3: "SetupTemplate ?L fake_client ''abc''
         (\<lambda>conn w. (Some (Errorf ''migration failed''), w))
         ([canned 200 ''{}'', canned 204 []], []) = (r3, (w3, tr3))"
    by (metis prod.exhaust)
  from SetupTemplate_protocol [OF i2 s2]
  have b: "r = None \<and> w' = [canned 204 []] \<and> tr' = [EvDo fake_POST]"
    by simp
  from SetupTemplate_protocol [OF i1 s3]
  have c: "r3 = Some (Errorf ''migration failed'') \<and> w3 = [canned 204 []]
             \<and> tr3 = [EvDo fake_POST, EvPopulate fake_conn]"
    by (simp add: fake_lib_sel fake_conn_zero)
  from i1 s1 a i2 s2 b s3 c show ?thesis by simp
qed



text \<open>
  Claim C3, amended. When the request is built, the exchange completes and the body
  decodes into the template (or the status is 202 or 204, for which \<^verbatim>\<open>do\<close> decodes
  nothing), \<^verbatim>\<open>InitializeTemplate\<close> returns the decoded template with no error on 200,
  \<^verbatim>\<open>ErrTemplateAlreadyInitialized\<close> on 423, \<^verbatim>\<open>ErrManagerNotReady\<close> on 503, and on every
  other status an error whose message carries the status code.
\<close>

theorem InitializeTemplate_status_mapping_when_decoded:
  assumes "newRequest L c ''POST'' ''/templates'' (Some [(''hash'', hash)]) = Inr req"
      and "client c req w = (Inr r, w')"
      and "StatusCode r = 202 \<or> StatusCode r = 204
             \<or> snd (json_Decode_Template L (Body r) zero_TemplateDatabase) = None"
  shows "fst (InitializeTemplate L c hash (w, tr)) =
     (if StatusCode r = 202 \<or> StatusCode r = 204 then zero_TemplateDatabase
      else fst (json_Decode_Template L (Body r) zero_TemplateDatabase),
      if StatusCode r = 200 then None
      else if StatusCode r = 423 then Some ErrTemplateAlreadyInitialized
      else if StatusCode r = 503 then Some ErrManagerNotReady
      else Some (Errorf (''received unexpected HTTP status '' @ itoa (StatusCode r)
                           @ '' ('' @ Status r @ '')'')))"
  using assms(3)
  by (auto simp: InitializeTemplate_completed [OF assms(1,2)] unexpected_status_def
        split: prod.splits option.splits)

text \<open>
  Runs of the theorem against the doubles: 423 and 418 with the body \<^verbatim>\<open>{}\<close>.
\<close>

theorem InitializeTemplate_status_mapping_when_decoded_witness:
  "newRequest (fake_lib True) fake_client ''POST'' ''/templates'' (Some [(''hash'', ''abc'')])
     = Inr fake_POST
   \<and> client fake_client fake_POST [canned 423 ''{}''] = (Inr (canned 423 ''{}''), [])
   \<and> snd (json_Decode_Template (fake_lib True) (Body (canned 423 ''{}'')) zero_TemplateDatabase)
       = None
   \<and> fst (InitializeTemplate (fake_lib True) fake_client ''abc'' ([canned 423 ''{}''], []))
       = (zero_TemplateDatabase, Some ErrTemplateAlreadyInitialized)
   \<and> fst (InitializeTemplate (fake_lib True) fake_client ''abc'' ([canned 418 ''{}''], []))
       = (zero_TemplateDatabase, Some (Errorf ''received unexpected HTTP status 418 (418)''))"
proof -
  let ?L = "fake_lib True :: (response list, nat) lib"
  have n: "newRequest ?L fake_client ''POST'' ''/templates'' (Some [(''hash'', ''abc'')])
     = Inr fake_POST"
    by (rule fake_newRequest_nil)
  have h: "\<And>code. client fake_client fake_POST [canned code ''{}''] = (Inr (canned code ''{}''), [])"
    by (rule fake_client_Do)
  have d: "\<And>code. StatusCode (canned code ''{}'') = 202 \<or> StatusCode (canned code ''{}'') = 204
      \<or> snd (json_Decode_Template ?L (Body (canned code ''{}'')) zero_TemplateDatabase) = None"
    by (simp add: fake_lib_sel canned_sel fake_decode_runs)
  from InitializeTemplate_status_mapping_when_decoded [OF n h d, of 423 "[]"]
    InitializeTemplate_status_mapping_when_decoded [OF n h d, of 418 "[]"] n h [of 423]
  show ?thesis
    by (simp add: fake_lib_sel canned_sel fake_decode_runs itoa_500)
qed

text \<open>
  The claim as stated fails: a completed exchange with status 423 and an empty body makes
  \<^verbatim>\<open>InitializeTemplate\<close> return the decoding error (\<^verbatim>\<open>io.EOF\<close>), not
  \<^verbatim>\<open>ErrTemplateAlreadyInitialized\<close>.
\<close>

theorem InitializeTemplate_423_empty_body_counterexample:
  "newRequest (fake_lib True) fake_client ''POST'' ''/templates'' (Some [(''hash'', ''abc'')])
     = Inr fake_POST
   \<and> client fake_client fake_POST [canned 423 []] = (Inr (canned 423 []), [])
   \<and> StatusCode (canned 423 []) = 423
   \<and> snd (fst (InitializeTemplate (fake_lib True) fake_client ''abc'' ([canned 423 []], [])))
       = Some (DecodeError ''EOF'')
   \<and> snd (fst (InitializeTemplate (fake_lib True) fake_client ''abc'' ([canned 423 []], [])))
       \<noteq> Some ErrTemplateAlreadyInitialized"
  by (simp add: fake_newRequest_nil fake_client_Do canned_sel fake_Initialize)

text \<open>
  Claim C4, amended. When the request is built, the exchange completes and the body
  decodes into the test database (or the status is 202 or 204), \<^verbatim>\<open>GetTestDatabase\<close>
  returns the decoded test database with no error on 200, \<^verbatim>\<open>ErrTemplateNotFound\<close> on 404,
  \<^verbatim>\<open>ErrDatabaseDiscarded\<close> (another error than \<^verbatim>\<open>ErrTemplateNotFound\<close>) on 410,
  \<^verbatim>\<open>ErrManagerNotReady\<close> on 503, and on every other status an error whose message
  carries the status code.
\<close>

theorem GetTestDatabase_status_mapping_when_decoded:
  assumes "newRequest L c ''GET'' (''/templates/'' @ hash @ ''/tests'') None = Inr req"
      and "client c req w = (Inr r, w')"
      and "StatusCode r = 202 \<or> StatusCode r = 204
             \<or> snd (json_Decode_Test L (Body r) zero_TestDatabase) = None"
  shows "fst (GetTestDatabase L c hash (w, tr)) =
     (if StatusCode r = 202 \<or> StatusCode r = 204 then zero_TestDatabase
      else fst (json_Decode_Test L (Body r) zero_TestDatabase),
      if StatusCode r = 200 then None
      else if StatusCode r = 404 then Some ErrTemplateNotFound
      else if StatusCode r = 410 then Some ErrDatabaseDiscarded
      else if StatusCode r = 503 then Some ErrManagerNotReady
      else Some (Errorf (''received unexpected HTTP status '' @ itoa (StatusCode r)
                           @ '' ('' @ Status r @ '')'')))
     \<and> ErrDatabaseDiscarded \<noteq> ErrTemplateNotFound"
  using assms(3)
  by (auto simp: GetTestDatabase_completed [OF assms(1,2)] unexpected_status_def
        split: prod.splits option.splits)

text \<open>
  Runs of the theorem against the doubles: 410 and 200 with the body \<^verbatim>\<open>{}\<close>.
\<close>

theorem GetTestDatabase_status_mapping_when_decoded_witness:
  "newRequest (fake_lib True) fake_client ''GET'' (''/templates/'' @ ''abc'' @ ''/tests'') None
     = Inr (fake_req ''GET'' ''/api/v1/templates/abc/tests'')
   \<and> client fake_client (fake_req ''GET'' ''/api/v1/templates/abc/tests'') [canned 410 ''{}'']
       = (Inr (canned 410 ''{}''), [])
   \<and> snd (json_Decode_Test (fake_lib True) (Body (canned 410 ''{}'')) zero_TestDatabase) = None
   \<and> fst (GetTestDatabase (fake_lib True) fake_client ''abc'' ([canned 410 ''{}''], []))
       = (zero_TestDatabase, Some ErrDatabaseDiscarded)
   \<and> fst (GetTestDatabase (fake_lib True) fake_client ''abc'' ([canned 200 ''{}''], []))
       = (zero_TestDatabase, None)"
proof -
  let ?L = "fake_lib True :: (response list, nat) lib"
  let ?req = "fake_req ''GET'' ''/api/v1/templates/abc/tests''"
  have n: "newRequest ?L fake_client ''GET'' (''/templates/'' @ ''abc'' @ ''/tests'') None
     = Inr ?req"
    by (simp add: fake_newRequest_nil)
  have h: "\<And>code. client fake_client ?req [canned code ''{}''] = (Inr (canned code ''{}''), [])"
    by (rule fake_client_Do)
  have d: "\<And>code. StatusCode (canned code ''{}'') = 202 \<or> StatusCode (canned code ''{}'') = 204
      \<or> snd (json_Decode_Test ?L (Body (canned code ''{}'')) zero_TestDatabase) = None"
    by (simp add: fake_lib_sel canned_sel fake_decode_runs)
  from GetTestDatabase_status_mapping_when_decoded [OF n h d, of 410 "[]"]
    GetTestDatabase_status_mapping_when_decoded [OF n h d, of 200 "[]"] n h [of 410]
  show ?thesis
    by (simp add: fake_lib_sel canned_sel fake_decode_runs)
qed

text \<open>
  The claim as stated fails: a completed exchange with status 404 and an empty body makes
  \<^verbatim>\<open>GetTestDatabase\<close> return the decoding error, not \<^verbatim>\<open>ErrTemplateNotFound\<close>.
\<close>

theorem GetTestDatabase_404_empty_body_counterexample:
  "newRequest (fake_lib True) fake_client ''GET'' (''/templates/'' @ ''abc'' @ ''/tests'') None
     = Inr (fake_req ''GET'' ''/api/v1/templates/abc/tests'')
   \<and> client fake_client (fake_req ''GET'' ''/api/v1/templates/abc/tests'') [canned 404 []]
       = (Inr (canned 404 []), [])
   \<and> StatusCode (canned 404 []) = 404
   \<and> snd (fst (GetTestDatabase (fake_lib True) fake_client ''abc'' ([canned 404 []], [])))
       = Some (DecodeError ''EOF'')
   \<and> snd (fst (GetTestDatabase (fake_lib True) fake_client ''abc'' ([canned 404 []], [])))
       \<noteq> Some ErrTemplateNotFound"
  by (simp add: fake_newRequest_nil fake_client_Do canned_sel fake_GetTest)

text \<open>
  Claim C5. \<^verbatim>\<open>FinalizeTemplate\<close> and \<^verbatim>\<open>DiscardTemplate\<close> map the status of a completed
  exchange in the same way, for every hash: 204 is success, 404 is
  \<^verbatim>\<open>ErrTemplateNotFound\<close>, 503 is \<^verbatim>\<open>ErrManagerNotReady\<close>, and every other status is an
  error whose message carries the status code.
\<close>

theorem Finalize_Discard_status_mapping:
  assumes "client c req w = (Inr r, w')"
  shows "(newRequest L c ''PUT'' (''/templates/'' @ hash) None = Inr req \<longrightarrow>
            fst (FinalizeTemplate L c hash (w, tr)) =
              (if StatusCode r = 204 then None
               else if StatusCode r = 404 then Some ErrTemplateNotFound
               else if StatusCode r = 503 then Some ErrManagerNotReady
               else Some (Errorf (''received unexpected HTTP status '' @ itoa (StatusCode r)
                                    @ '' ('' @ Status r @ '')''))))
       \<and> (newRequest L c ''DELETE'' (''/templates/'' @ hash) None = Inr req \<longrightarrow>
            fst (DiscardTemplate L c hash (w, tr)) =
              (if StatusCode r = 204 then None
               else if StatusCode r = 404 then Some ErrTemplateNotFound
               else if StatusCode r = 503 then Some ErrManagerNotReady
               else Some (Errorf (''received unexpected HTTP status '' @ itoa (StatusCode r)
                                    @ '' ('' @ Status r @ '')''))))"
  using assms
  by (simp add: FinalizeTemplate_def DiscardTemplate_def no_content_op_completed
        unexpected_status_def)

text \<open>
  Runs of the theorem against the doubles: \<^verbatim>\<open>FinalizeTemplate\<close> on 404 and \<^verbatim>\<open>DiscardTemplate\<close> on
  500.
\<close>

theorem Finalize_Discard_status_mapping_witness:
  "client fake_client (fake_req ''PUT'' ''/api/v1/templates/abc'') [canned 404 []]
     = (Inr (canned 404 []), [])
   \<and> newRequest (fake_lib True) fake_client ''PUT'' (''/templates/'' @ ''abc'') None
       = Inr (fake_req ''PUT'' ''/api/v1/templates/abc'')
   \<and> fst (FinalizeTemplate (fake_lib True) fake_client ''abc'' ([canned 404 []], []))
       = Some ErrTemplateNotFound
   \<and> client fake_client (fake_req ''DELETE'' ''/api/v1/templates/abc'') [canned 500 []]
       = (Inr (canned 500 []), [])
   \<and> newRequest (fake_lib True) fake_client ''DELETE'' (''/templates/'' @ ''abc'') None
       = Inr (fake_req ''DELETE'' ''/api/v1/templates/abc'')
   \<and> fst (DiscardTemplate (fake_lib True) fake_client ''abc'' ([canned 500 []], []))
       = Some (Errorf ''received unexpected HTTP status 500 (500)'')"
proof -
  have h1: "client fake_client (fake_req ''PUT'' ''/api/v1/templates/abc'') [canned 404 []]
     = (Inr (canned 404 []), [])"
    by (rule fake_client_Do)
  have h2: "client fake_client (fake_req ''DELETE'' ''/api/v1/templates/abc'') [canned 500 []]
     = (Inr (canned 500 []), [])"
    by (rule fake_client_Do)
  from Finalize_Discard_status_mapping [OF h1, where L = "fake_lib True" and hash = "''abc''"
        and tr = "[]"]
    Finalize_Discard_status_mapping [OF h2, where L = "fake_lib True" and hash = "''abc''"
        and tr = "[]"]
    h1 h2
  show ?thesis by (simp add: fake_newRequest_nil canned_sel itoa_500)
qed




text \<open>
  Claim C7. For every completed exchange, \<^verbatim>\<open>do\<close> returns the response (and with it
  the raw status code) and leaves the destination as it was when the status is 202 or 204
  or when the destination is absent; otherwise it decodes the body into the destination,
  and returns the response when the decoder succeeds. Whenever \<^verbatim>\<open>do\<close> returns a
  response, it is the response of the exchange.
\<close>

theorem do_decodes_unless_bodyless:
  assumes "client c req w = (Inr r, w')"
  shows "(StatusCode r = 202 \<or> StatusCode r = 204 \<longrightarrow>
            do c req v (w, tr) = ((Inr r, map_option snd v), (w', tr @ [EvDo req])))
       \<and> do c req None (w, tr) = ((Inr r, None), (w', tr @ [EvDo req]))
       \<and> (StatusCode r \<noteq> 202 \<and> StatusCode r \<noteq> 204 \<longrightarrow>
            do c req (Some (dec, x)) (w, tr) =
              ((case snd (dec (Body r) x) of
                  None \<Rightarrow> Inr r
                | Some m \<Rightarrow> Inl (DecodeError m),
                Some (fst (dec (Body r) x))), (w', tr @ [EvDo req])))
       \<and> (\<forall>r' d s'. do c req v (w, tr) = ((Inr r', d), s') \<longrightarrow> r' = r)"
  using assms
  by (auto simp: do_def Let_def split: prod.splits sum.splits option.splits)

text \<open>
  Runs of the theorem against the doubles: on 204 the destination keeps its value, on 500 the body
  is decoded into it, and with no destination nothing is decoded.
\<close>

theorem do_decodes_unless_bodyless_witness:
  "client fake_client fake_POST [canned 204 ''{}''] = (Inr (canned 204 ''{}''), [])
   \<and> do fake_client fake_POST (Some (fake_Decode_string, ''old'')) ([canned 204 ''{}''], [] :: nat event list)
       = ((Inr (canned 204 ''{}''), Some ''old''), ([], [EvDo fake_POST]))
   \<and> client fake_client fake_POST [canned 500 [CHR 0x22, CHR ''x'', CHR 0x22]]
       = (Inr (canned 500 [CHR 0x22, CHR ''x'', CHR 0x22]), [])
   \<and> do fake_client fake_POST (Some (fake_Decode_string, ''old''))
         ([canned 500 [CHR 0x22, CHR ''x'', CHR 0x22]], [] :: nat event list)
       = ((Inr (canned 500 [CHR 0x22, CHR ''x'', CHR 0x22]), Some ''x''), ([], [EvDo fake_POST]))
   \<and> do fake_client fake_POST nil_dest
         ([canned 500 [CHR 0x22, CHR ''x'', CHR 0x22]], [] :: nat event list)
       = ((Inr (canned 500 [CHR 0x22, CHR ''x'', CHR 0x22]), None), ([], [EvDo fake_POST]))"
proof -
  let ?x = "[CHR 0x22, CHR ''x'', CHR 0x22]"
  have h1: "client fake_client fake_POST [canned 204 ''{}''] = (Inr (canned 204 ''{}''), [])"
    by (rule fake_client_Do)
  have h2: "client fake_client fake_POST [canned 500 ?x] = (Inr (canned 500 ?x), [])"
    by (rule fake_client_Do)
  have d: "fake_Decode_string ?x ''old'' = (''x'', None)"
    by (simp add: fake_Decode_string_def)
  from do_decodes_unless_bodyless [OF h1, where v = "Some (fake_Decode_string, ''old'')"
        and tr = "[] :: nat event list"]
    do_decodes_unless_bodyless [OF h2, where dec = fake_Decode_string and x = "''old''"
        and tr = "[] :: nat event list" and v = "nil_dest"]
    h1 h2 d
  show ?thesis unfolding canned_sel nil_dest_def by auto
qed

text \<open>
  Claim C8, amended. For a completed exchange \<^verbatim>\<open>ResetAllTracking\<close> returns success
  exactly when the status is 204, and its error is never one of the five named errors. On
  202 the error is the generic failure with an empty text (the body is not read); on any
  other status it is the generic failure followed by the string decoded from the body, or
  the decoding error when the body does not decode into a string.
\<close>

theorem ResetAllTracking_outcome:
  assumes "newRequest L c ''DELETE'' ''/admin/templates'' None = Inr req"
      and "client c req w = (Inr r, w')"
  shows "(fst (ResetAllTracking L c (w, tr)) = None \<longleftrightarrow> StatusCode r = 204)
       \<and> (\<forall>e. fst (ResetAllTracking L c (w, tr)) = Some e \<longrightarrow>
             e \<notin> {ErrManagerNotReady, ErrTemplateAlreadyInitialized, ErrTemplateNotFound,
                   ErrDatabaseDiscarded, ErrTestNotFound})
       \<and> (StatusCode r = 202 \<longrightarrow>
             fst (ResetAllTracking L c (w, tr)) =
               Some (Errorf ''failed to reset all tracking: ''))
       \<and> (StatusCode r \<noteq> 202 \<and> StatusCode r \<noteq> 204 \<longrightarrow>
             fst (ResetAllTracking L c (w, tr)) =
               (case json_Decode_string L (Body r) [] of
                  (msg, None) \<Rightarrow> Some (Errorf (''failed to reset all tracking: '' @ msg))
                | (msg, Some m) \<Rightarrow> Some (DecodeError m)))"
  by (auto simp: ResetAllTracking_completed [OF assms] split: prod.splits option.splits)

text \<open>
  Runs of the theorem against the doubles: 500 with a JSON string as the body.
\<close>

theorem ResetAllTracking_outcome_witness:
  "newRequest (fake_lib True) fake_client ''DELETE'' ''/admin/templates'' None
     = Inr (fake_req ''DELETE'' ''/api/v1/admin/templates'')
   \<and> client fake_client (fake_req ''DELETE'' ''/api/v1/admin/templates'')
         [canned 500 [CHR 0x22, CHR ''b'', CHR ''o'', CHR ''o'', CHR ''m'', CHR 0x22]]
       = (Inr (canned 500 [CHR 0x22, CHR ''b'', CHR ''o'', CHR ''o'', CHR ''m'', CHR 0x22]), [])
   \<and> fst (ResetAllTracking (fake_lib True) fake_client
              ([canned 500 [CHR 0x22, CHR ''b'', CHR ''o'', CHR ''o'', CHR ''m'', CHR 0x22]], []))
       = Some (Errorf ''failed to reset all tracking: boom'')
   \<and> fst (ResetAllTracking (fake_lib True) fake_client ([canned 204 []], [])) = None
   \<and> fst (ResetAllTracking (fake_lib True) fake_client ([canned 202 []], []))
       = Some (Errorf ''failed to reset all tracking: '')"
proof -
  let ?L = "fake_lib True :: (response list, nat) lib"
  let ?req = "fake_req ''DELETE'' ''/api/v1/admin/templates''"
  let ?body = "[CHR 0x22, CHR ''b'', CHR ''o'', CHR ''o'', CHR ''m'', CHR 0x22]"
  have n: "newRequest ?L fake_client ''DELETE'' ''/admin/templates'' None = Inr ?req"
    by (rule fake_newRequest_nil)
  have h: "\<And>r. client fake_client ?req [r] = (Inr r, [])"
    by (rule fake_client_Do)
  from ResetAllTracking_outcome [OF n h, of "canned 500 ?body" "[]"]
    ResetAllTracking_outcome [OF n h, of "canned 204 []" "[]"]
    ResetAllTracking_outcome [OF n h, of "canned 202 []" "[]"] n h [of "canned 500 ?body"]
  show ?thesis
    by (simp add: canned_sel fake_lib_sel fake_decode_runs)
qed

text \<open>
  The claim as stated fails: on 202 the message of the failure does not carry the body, and on 500
  with a JSON object as the body the failure is the decoding error.
\<close>

theorem ResetAllTracking_body_not_carried_counterexample:
  "newRequest (fake_lib True) fake_client ''DELETE'' ''/admin/templates'' None
     = Inr (fake_req ''DELETE'' ''/api/v1/admin/templates'')
   \<and> client fake_client (fake_req ''DELETE'' ''/api/v1/admin/templates'') [canned 202 ''busy'']
       = (Inr (canned 202 ''busy''), [])
   \<and> Body (canned 202 ''busy'') = ''busy''
   \<and> fst (ResetAllTracking (fake_lib True) fake_client ([canned 202 ''busy''], []))
       = Some (Errorf ''failed to reset all tracking: '')
   \<and> fst (ResetAllTracking (fake_lib True) fake_client ([canned 500 ''{}''], []))
       = Some (DecodeError ''json: cannot unmarshal'')"
  by (simp add: fake_newRequest_nil fake_client_Do canned_sel fake_Reset)

text \<open>
  Claim C9. For \<^verbatim>\<open>InitializeTemplate\<close>, \<^verbatim>\<open>GetTestDatabase\<close> and \<^verbatim>\<open>ResetAllTracking\<close>,
  when the exchange completes with a status other than 202 and 204 and the body does not
  decode into the destination, the call returns the decoding error, whatever the status:
  the status is not classified.
\<close>

theorem decode_failure_preempts_status_mapping:
  assumes "client c req w = (Inr r, w')"
      and "StatusCode r \<noteq> 202" and "StatusCode r \<noteq> 204"
  shows "(newRequest L c ''POST'' ''/templates'' (Some [(''hash'', hash)]) = Inr req
            \<and> snd (json_Decode_Template L (Body r) zero_TemplateDatabase) = Some m \<longrightarrow>
          snd (fst (InitializeTemplate L c hash (w, tr))) = Some (DecodeError m))
       \<and> (newRequest L c ''GET'' (''/templates/'' @ hash @ ''/tests'') None = Inr req
            \<and> snd (json_Decode_Test L (Body r) zero_TestDatabase) = Some m \<longrightarrow>
          snd (fst (GetTestDatabase L c hash (w, tr))) = Some (DecodeError m))
       \<and> (newRequest L c ''DELETE'' ''/admin/templates'' None = Inr req
            \<and> snd (json_Decode_string L (Body r) []) = Some m \<longrightarrow>
          fst (ResetAllTracking L c (w, tr)) = Some (DecodeError m))"
  using assms
  by (auto simp: InitializeTemplate_completed GetTestDatabase_completed
        ResetAllTracking_completed split: prod.splits)

text \<open>
  Runs of the theorem against the doubles: a 423 response with the body \<^verbatim>\<open>Locked\<close> gives the
  decoding error and not \<^verbatim>\<open>ErrTemplateAlreadyInitialized\<close>.
\<close>

theorem decode_failure_preempts_status_mapping_witness:
  "newRequest (fake_lib True) fake_client ''POST'' ''/templates'' (Some [(''hash'', ''abc'')])
     = Inr fake_POST
   \<and> client fake_client fake_POST [canned 423 ''Locked''] = (Inr (canned 423 ''Locked''), [])
   \<and> snd (json_Decode_Template (fake_lib True) (Body (canned 423 ''Locked''))
            zero_TemplateDatabase) = Some ''json: cannot unmarshal''
   \<and> snd (fst (InitializeTemplate (fake_lib True) fake_client ''abc''
                   ([canned 423 ''Locked''], [])))
       = Some (DecodeError ''json: cannot unmarshal'')
   \<and> snd (fst (GetTestDatabase (fake_lib True) fake_client ''abc''
                   ([canned 404 ''Locked''], [])))
       = Some (DecodeError ''json: cannot unmarshal'')
   \<and> fst (ResetAllTracking (fake_lib True) fake_client ([canned 503 ''Locked''], []))
       = Some (DecodeError ''json: cannot unmarshal'')"
proof -
  let ?L = "fake_lib True :: (response list, nat) lib"
  have n1: "newRequest ?L fake_client ''POST'' ''/templates'' (Some [(''hash'', ''abc'')])
     = Inr fake_POST"
    by (rule fake_newRequest_nil)
  have n2: "newRequest ?L fake_client ''GET'' (''/templates/'' @ ''abc'' @ ''/tests'') None
     = Inr (fake_req ''GET'' ''/api/v1/templates/abc/tests'')"
    by (simp add: fake_newRequest_nil)
  have n3: "newRequest ?L fake_client ''DELETE'' ''/admin/templates'' None
     = Inr (fake_req ''DELETE'' ''/api/v1/admin/templates'')"
    by (rule fake_newRequest_nil)
  have h: "\<And>req r. client fake_client req [r] = (Inr r, [])"
    by (rule fake_client_Do)
  have d: "fake_Decode_struct ''Locked'' zero_TemplateDatabase
             = (zero_TemplateDatabase, Some ''json: cannot unmarshal'')"
    "fake_Decode_struct ''Locked'' zero_TestDatabase
             = (zero_TestDatabase, Some ''json: cannot unmarshal'')"
    "fake_Decode_string ''Locked'' [] = ([], Some ''json: cannot unmarshal'')"
    by (simp_all add: fake_Decode_struct_def fake_Decode_string_def)
  have c: "StatusCode (canned 423 ''Locked'') \<noteq> 202" "StatusCode (canned 423 ''Locked'') \<noteq> 204"
    "StatusCode (canned 404 ''Locked'') \<noteq> 202" "StatusCode (canned 404 ''Locked'') \<noteq> 204"
    "StatusCode (canned 503 ''Locked'') \<noteq> 202" "StatusCode (canned 503 ''Locked'') \<noteq> 204"
    by (simp_all add: canned_sel)
  from decode_failure_preempts_status_mapping [OF h c(1,2), where L = ?L and hash = "''abc''"
        and req = fake_POST and m = "''json: cannot unmarshal''" and tr = "[]"]
    decode_failure_preempts_status_mapping [OF h c(3,4), where L = ?L and hash = "''abc''"
        and req = "fake_req ''GET'' ''/api/v1/templates/abc/tests''"
        and m = "''json: cannot unmarshal''" and tr = "[]"]
    decode_failure_preempts_status_mapping [OF h c(5,6), where L = ?L and hash = "''abc''"
        and req = "fake_req ''DELETE'' ''/api/v1/admin/templates''"
        and m = "''json: cannot unmarshal''" and tr = "[]"]
    n1 n2 n3 h [of fake_POST "canned 423 ''Locked''"]
  show ?thesis
    by (simp add: canned_sel fake_lib_sel d)
qed



end
